theory Spec2Isabelle
  imports Complex_Main
begin

section \<open>Strings and characters\<close>

text \<open>
  A Python \<open>str\<close> is modelled as a \<open>string\<close>: one \<open>char\<close> per code point, for code points
  below 256 (Latin-1). On this range the character class \<open>\d\<close> of \<open>re\<close> is exactly
  \<open>0\<close> to \<open>9\<close>, and \<open>str.lower\<close> moves the 26 ASCII capitals and the Latin-1 capitals
  \<open>0xC0\<close> to \<open>0xDE\<close> (without the multiplication sign \<open>0xD7\<close>) up by 32.
\<close>

definition is_digit :: "char \<Rightarrow> bool" where
  "is_digit c \<longleftrightarrow> c \<in> set ''0123456789''"

definition is_upper :: "char \<Rightarrow> bool" where
  "is_upper c \<longleftrightarrow> c \<in> set ''ABCDEFGHIJKLMNOPQRSTUVWXYZ''"

definition is_lower :: "char \<Rightarrow> bool" where
  "is_lower c \<longleftrightarrow> c \<in> set ''abcdefghijklmnopqrstuvwxyz''"

definition lower_char :: "char \<Rightarrow> char" where
  "lower_char c =
     (let n = (of_char c :: nat)
      in if (65 \<le> n \<and> n \<le> 90) \<or> (192 \<le> n \<and> n \<le> 222 \<and> n \<noteq> 215)
         then char_of (n + 32) else c)"

text \<open>
  \<open>str.upper\<close> is called on an ISIN that \<open>parse_for_isin\<close> has found, which consists of
  ASCII letters and digits; on these it moves the 26 small letters down by 32.
\<close>

definition upper_char :: "char \<Rightarrow> char" where
  "upper_char c =
     (let n = (of_char c :: nat)
      in if 97 \<le> n \<and> n \<le> 122 then char_of (n - 32) else c)"

definition py_lower :: "string \<Rightarrow> string" where
  "py_lower s = map lower_char s"

datatype pyerr =
    ValueError | AttributeError | KeyError | IndexError
  | UnboundLocalError | RequestError | SystemExit

section \<open>Regular expressions made of character classes\<close>

text \<open>
  The pattern of \<open>parse_for_isin\<close>, \<open>[a-zA-Z]{2}[A-Z0-9]{9}\d\<close>, is a sequence of twelve
  character classes. \<open>class_match\<close> is a match of such a sequence at the start of a
  string, and \<open>re_search\<close> is \<open>re.search\<close> followed by \<open>.group()\<close>: the positions are tried
  from left to right, and the text of the first match is returned.
\<close>

type_synonym char_class = "char \<Rightarrow> bool"

fun class_match :: "char_class list \<Rightarrow> string \<Rightarrow> bool" where
  "class_match [] s = True"
| "class_match (p # ps) [] = False"
| "class_match (p # ps) (c # cs) = (p c \<and> class_match ps cs)"

fun re_search :: "char_class list \<Rightarrow> string \<Rightarrow> string option" where
  "re_search ps [] = (if class_match ps [] then Some [] else None)"
| "re_search ps (c # cs) =
     (if class_match ps (c # cs) then Some (take (length ps) (c # cs))
      else re_search ps cs)"

definition cls_letter :: char_class where
  "cls_letter c \<longleftrightarrow> is_lower c \<or> is_upper c"

definition cls_upper_digit :: char_class where
  "cls_upper_digit c \<longleftrightarrow> is_upper c \<or> is_digit c"

definition isin_pattern :: "char_class list" where
  "isin_pattern = replicate 2 cls_letter @ replicate 9 cls_upper_digit @ [is_digit]"

section \<open>The ISIN of a string and the URL of a request\<close>

definition parse_for_isin :: "string \<Rightarrow> string option" where
  "parse_for_isin string_object = re_search isin_pattern string_object"

definition search_url :: string where
  "search_url = ''https://www.finanzen.net/suchergebnis.asp?_search=''"

definition join_url :: "string \<Rightarrow> string \<Rightarrow> string \<times> string option" where
  "join_url url search_value =
     (let isin = parse_for_isin search_value;
          url1 = url @ search_value
      in if isin \<noteq> None then (search_url @ search_value, isin) else (url1, isin))"

text \<open>
  The first two statements of \<open>get_fundamentals\<close> and of \<open>get_chart_infos\<close>: the stock is
  put in lower case, and the URL and the ISIN of the request come from \<open>join_url\<close>.
\<close>

definition fundamentals_base :: string where
  "fundamentals_base = ''https://www.finanzen.net/bilanz_guv/''"

definition chart_base :: string where
  "chart_base = ''https://www.finanzen.net/aktien/''"

definition fundamentals_request :: "string \<Rightarrow> string \<times> string option" where
  "fundamentals_request stock = join_url fundamentals_base (py_lower stock)"

definition chart_request :: "string \<Rightarrow> string \<times> string option" where
  "chart_request stock = join_url chart_base (py_lower stock)"

text \<open>
  The spec's wording of the ISIN pattern, for comparison with the pattern of the code:
  two letters, nine alphanumeric characters, one digit.
\<close>

definition spec_alnum :: char_class where
  "spec_alnum c \<longleftrightarrow> is_lower c \<or> is_upper c \<or> is_digit c"

definition spec_isin_pattern :: "char_class list" where
  "spec_isin_pattern = replicate 2 cls_letter @ replicate 9 spec_alnum @ [is_digit]"

definition full_match :: "char_class list \<Rightarrow> string \<Rightarrow> bool" where
  "full_match ps s \<longleftrightarrow> length s = length ps \<and> class_match ps s"

section \<open>Numeric normalisation of table cells\<close>

text \<open>
  \<open>re.sub(r"\.", "", x)\<close> deletes every full stop, \<open>re.sub(",", ".", x)\<close> turns every comma
  into a full stop, and \<open>re.sub("[^\d,]", "", x)\<close> deletes every character that is neither
  a digit nor a comma.
\<close>

definition sub_dots :: "string \<Rightarrow> string" where
  "sub_dots x = filter (\<lambda>c. c \<noteq> CHR ''.'') x"

definition sub_comma :: "string \<Rightarrow> string" where
  "sub_comma x = map (\<lambda>c. if c = CHR '','' then CHR ''.'' else c) x"

definition sub_non_digit_comma :: "string \<Rightarrow> string" where
  "sub_non_digit_comma x = filter (\<lambda>c. is_digit c \<or> c = CHR '','') x"

text \<open>
  Python's built-in \<open>float\<close> is a parameter \<open>flt\<close> of the model: \<open>None\<close> stands for the
  \<open>ValueError\<close> of a string that is no number. \<open>to_float\<close> is the call \<open>float(x)\<close>.
\<close>

definition to_float :: "(string \<Rightarrow> 'v option) \<Rightarrow> string \<Rightarrow> pyerr + 'v" where
  "to_float flt x = (case flt x of None \<Rightarrow> Inl ValueError | Some v \<Rightarrow> Inr v)"

text \<open>
  One cell of a row in \<open>_parse_table\<close> of \<open>get_fundamentals\<close> (lines 116 to 118): the two
  substitutions, then \<open>float(x) if x != "-" else None\<close>.
\<close>

definition fund_clean :: "string \<Rightarrow> string" where
  "fund_clean x = sub_comma (sub_dots x)"

definition float_or_none :: "(string \<Rightarrow> 'v option) \<Rightarrow> string \<Rightarrow> pyerr + 'v option" where
  "float_or_none flt x =
     (if x \<noteq> ''-'' then (case to_float flt x of Inl e \<Rightarrow> Inl e | Inr v \<Rightarrow> Inr (Some v))
      else Inr None)"

definition fund_cell :: "(string \<Rightarrow> 'v option) \<Rightarrow> string \<Rightarrow> pyerr + 'v option" where
  "fund_cell flt x = float_or_none flt (fund_clean x)"

text \<open>
  One cell of a row in \<open>get_estimates\<close> (lines 225 to 228): the placeholder \<open>"-"\<close> becomes
  \<open>None\<close> first, every other cell is cleaned and given to \<open>float\<close>.
\<close>

definition est_clean :: "string \<Rightarrow> string" where
  "est_clean x = sub_comma (sub_non_digit_comma x)"

definition est_cell :: "(string \<Rightarrow> 'v option) \<Rightarrow> string \<Rightarrow> pyerr + 'v option" where
  "est_cell flt x =
     (if x \<noteq> ''-'' then (case to_float flt (est_clean x) of Inl e \<Rightarrow> Inl e | Inr v \<Rightarrow> Inr (Some v))
      else Inr None)"

text \<open>
  A list comprehension whose body may raise: the elements are evaluated from left to
  right and the first exception ends the comprehension.
\<close>

fun map_raise :: "('a \<Rightarrow> pyerr + 'b) \<Rightarrow> 'a list \<Rightarrow> pyerr + 'b list" where
  "map_raise f [] = Inr []"
| "map_raise f (x # xs) =
     (case f x of Inl e \<Rightarrow> Inl e
      | Inr y \<Rightarrow> (case map_raise f xs of Inl e \<Rightarrow> Inl e | Inr ys \<Rightarrow> Inr (y # ys)))"

text \<open>
  A reading of \<open>float\<close> on plain decimal numerals, used where a concrete number is wanted:
  an optional sign, digits, and at most one full stop, with a digit on at least one side
  of it. The value is the exact decimal the numeral denotes (the rounding to a double is
  left out). Strings of any other form are rejected here; Python's \<open>float\<close> accepts some
  of them (exponents, \<open>inf\<close>, \<open>nan\<close>, underscores, surrounding white space).
\<close>

definition digit_val :: "char \<Rightarrow> nat" where
  "digit_val c = of_char c - 48"

definition digits_val :: "string \<Rightarrow> nat" where
  "digits_val ds = foldl (\<lambda>n c. 10 * n + digit_val c) 0 ds"

definition unsigned_float :: "string \<Rightarrow> rat option" where
  "unsigned_float s =
     (let ip = takeWhile is_digit s
      in case dropWhile is_digit s of
           [] \<Rightarrow> if ip = [] then None else Some (of_nat (digits_val ip))
         | c # fp \<Rightarrow>
             if c = CHR ''.'' \<and> list_all is_digit fp \<and> (ip \<noteq> [] \<or> fp \<noteq> [])
             then Some (of_nat (digits_val (ip @ fp)) / 10 ^ length fp)
             else None)"

definition py_float :: "string \<Rightarrow> rat option" where
  "py_float s =
     (case s of
        [] \<Rightarrow> None
      | c # cs \<Rightarrow>
          if c = CHR ''-'' then map_option uminus (unsigned_float cs)
          else if c = CHR ''+'' then unsigned_float cs
          else unsigned_float s)"

text \<open>
  The localised form of a number, as in \<open>"1.234,56"\<close>: groups of digits separated by full
  stops, a comma, and the digits of the fraction. \<open>decimal_value ds fs\<close> is the number
  with integer digits \<open>ds\<close> and fraction digits \<open>fs\<close>.
\<close>

fun join_dots :: "string list \<Rightarrow> string" where
  "join_dots [] = []"
| "join_dots [g] = g"
| "join_dots (g # h # gs) = g @ ''.'' @ join_dots (h # gs)"

definition localized :: "string list \<Rightarrow> string \<Rightarrow> string" where
  "localized gs fs = join_dots gs @ '','' @ fs"

definition decimal_value :: "string \<Rightarrow> string \<Rightarrow> rat" where
  "decimal_value ds fs = of_nat (digits_val (ds @ fs)) / 10 ^ length fs"

section \<open>Python dictionaries\<close>

text \<open>
  A \<open>dict\<close> is an association list in insertion order: \<open>d[k] = v\<close> replaces the value of
  a key that is present and appends a new key, and \<open>dict(pairs)\<close> stores the pairs from
  left to right.
\<close>

type_synonym ('k, 'v) pydict = "('k \<times> 'v) list"

fun dict_set :: "'k \<Rightarrow> 'v \<Rightarrow> ('k, 'v) pydict \<Rightarrow> ('k, 'v) pydict" where
  "dict_set k v [] = [(k, v)]"
| "dict_set k v ((k', v') # d) =
     (if k = k' then (k, v) # d else (k', v') # dict_set k v d)"

definition py_dict :: "('k \<times> 'v) list \<Rightarrow> ('k, 'v) pydict" where
  "py_dict pairs = foldl (\<lambda>d (k, v). dict_set k v d) [] pairs"

section \<open>The parsed page\<close>

text \<open>
  The tree that \<open>_make_soup\<close> returns: a node is a text or a tag with its name, the
  tokens of its \<open>class\<close> attribute, its other attributes and its children. The soup
  itself is the tag at the root. The functions below are the operations of the
  tree library that the code calls.
\<close>

datatype node = Text string | Tag string "string list" "(string \<times> string) list" "node list"

fun descendants :: "node \<Rightarrow> node list" where
  "descendants (Text s) = []"
| "descendants (Tag n cl ats cs) = concat (map (\<lambda>c. c # descendants c) cs)"

text \<open>Every node below the root with its parent, in document order.\<close>

fun edges :: "node \<Rightarrow> (node \<times> node) list" where
  "edges (Text s) = []"
| "edges (Tag n cl ats cs) = concat (map (\<lambda>c. (Tag n cl ats cs, c) # edges c) cs)"

fun get_text :: "node \<Rightarrow> string" where
  "get_text (Text s) = s"
| "get_text (Tag n cl ats cs) = concat (map get_text cs)"

text \<open>
  \<open>.string\<close>: the text of a tag whose only child is a text, or whose only child is a tag
  that has a \<open>.string\<close>.
\<close>

fun tag_string :: "node \<Rightarrow> string option" where
  "tag_string (Text s) = Some s"
| "tag_string (Tag n cl ats [c]) = tag_string c"
| "tag_string (Tag n cl ats cs) = None"

fun is_tag :: "string \<Rightarrow> node \<Rightarrow> bool" where
  "is_tag name (Text s) = False"
| "is_tag name (Tag n cl ats cs) = (n = name)"

fun has_class :: "string \<Rightarrow> node \<Rightarrow> bool" where
  "has_class c (Text s) = False"
| "has_class c (Tag n cl ats cs) = (c \<in> set cl)"

fun attr :: "string \<Rightarrow> node \<Rightarrow> string option" where
  "attr a (Text s) = None"
| "attr a (Tag n cl ats cs) = map_of ats a"

fun is_prefix :: "string \<Rightarrow> string \<Rightarrow> bool" where
  "is_prefix [] s = True"
| "is_prefix (p # ps) [] = False"
| "is_prefix (p # ps) (c # cs) = (p = c \<and> is_prefix ps cs)"

text \<open>\<open>sub in s\<close>, which is also \<open>re.search(sub, s)\<close> for a pattern without special characters.\<close>

fun contains :: "string \<Rightarrow> string \<Rightarrow> bool" where
  "contains sub [] = (sub = [])"
| "contains sub (c # cs) = (is_prefix sub (c # cs) \<or> contains sub cs)"

definition text_matches :: "string \<Rightarrow> node \<Rightarrow> bool" where
  "text_matches signaler t = (case tag_string t of None \<Rightarrow> False | Some s \<Rightarrow> contains signaler s)"

definition find_tag :: "(node \<Rightarrow> bool) \<Rightarrow> node \<Rightarrow> node option" where
  "find_tag P soup = find P (descendants soup)"

definition find_all :: "string \<Rightarrow> node \<Rightarrow> node list" where
  "find_all name t = filter (is_tag name) (descendants t)"

text \<open>\<open>soup.find(...).parent\<close>: \<open>None\<close> has no \<open>parent\<close>.\<close>

definition find_parent :: "(node \<Rightarrow> bool) \<Rightarrow> node \<Rightarrow> pyerr + node" where
  "find_parent P soup =
     (case find (\<lambda>(p, c). P c) (edges soup) of
        None \<Rightarrow> Inl AttributeError
      | Some (p, c) \<Rightarrow> Inr p)"

section \<open>\<open>get_isin_from_soup\<close> and \<open>_check_site\<close>\<close>

definition get_isin_from_soup :: "node \<Rightarrow> pyerr + string option" where
  "get_isin_from_soup soup =
     (case find_tag (\<lambda>t. is_tag ''meta'' t \<and> attr ''property'' t = Some ''og:title'') soup of
        None \<Rightarrow> Inr None
      | Some isin_soup \<Rightarrow>
          (case attr ''content'' isin_soup of
             None \<Rightarrow> Inl KeyError
           | Some content \<Rightarrow> Inr (parse_for_isin content)))"

definition load_error :: string where
  "load_error = ''Die gew'' @ [char_of (252 :: nat)] @ ''nschte Seite konnte nicht angezeigt werden''"

definition check_site :: "node \<Rightarrow> pyerr + unit" where
  "check_site soup =
     (case find_tag (\<lambda>t. is_tag ''div'' t \<and> has_class ''special_info_box'' t) soup of
        None \<Rightarrow> Inr ()
      | Some message \<Rightarrow>
          if contains load_error (get_text message) then Inl ValueError else Inr ())"

section \<open>\<open>get_fundamentals\<close>\<close>

type_synonym 'v table_dict = "(string, (string, 'v option) pydict) pydict"

text \<open>The body of the loop over the rows in \<open>_parse_table\<close>, lines 112 to 119.\<close>

definition parse_row ::
  "(string \<Rightarrow> 'v option) \<Rightarrow> string list \<Rightarrow> node \<Rightarrow> 'v table_dict \<Rightarrow> pyerr + 'v table_dict" where
  "parse_row flt years row table_dict =
     (case find_tag (\<lambda>t. is_tag ''td'' t \<and> has_class ''font-bold'' t) row of
        None \<Rightarrow> Inl AttributeError
      | Some cell \<Rightarrow>
          (let name = get_text cell;
               row_data = find_all ''td'' row;
               row_data = drop 2 row_data;
               row_data = map get_text row_data;
               row_data = map sub_dots row_data;
               row_data = map sub_comma row_data
           in case map_raise (float_or_none flt) row_data of
                Inl e \<Rightarrow> Inl e
              | Inr row_data \<Rightarrow> Inr (dict_set name (py_dict (zip years row_data)) table_dict)))"

fun parse_rows ::
  "(string \<Rightarrow> 'v option) \<Rightarrow> string list \<Rightarrow> node list \<Rightarrow> 'v table_dict \<Rightarrow> pyerr + 'v table_dict" where
  "parse_rows flt years [] table_dict = Inr table_dict"
| "parse_rows flt years (row # rows) table_dict =
     (case parse_row flt years row table_dict of
        Inl e \<Rightarrow> Inl e
      | Inr table_dict' \<Rightarrow> parse_rows flt years rows table_dict')"

text \<open>
  \<open>_parse_table\<close> of \<open>get_fundamentals\<close>. Every call passes a \<open>signaler\<close> without special
  characters, so that \<open>re.compile(signaler)\<close> looks for the signaler as a substring.
\<close>

definition parse_table :: "(string \<Rightarrow> 'v option) \<Rightarrow> node \<Rightarrow> string \<Rightarrow> pyerr + 'v table_dict" where
  "parse_table flt soup signaler =
     (case find_parent (\<lambda>t. is_tag ''h2'' t \<and> text_matches signaler t) soup of
        Inl e \<Rightarrow> Inl e
      | Inr table \<Rightarrow>
          (let years = map get_text (drop 2 (find_all ''th'' table));
               rows = drop 1 (find_all ''tr'' table)
           in parse_rows flt years rows []))"

text \<open>\<open>try: x = f() except Exception: x = None\<close>\<close>

definition attempt :: "pyerr + 'a \<Rightarrow> 'a option" where
  "attempt r = (case r of Inl e \<Rightarrow> None | Inr x \<Rightarrow> Some x)"

text \<open>The truth value of \<open>isin\<close> in \<open>isin if isin else get_isin_from_soup(soup)\<close>.\<close>

definition truthy :: "string option \<Rightarrow> bool" where
  "truthy isin = (case isin of None \<Rightarrow> False | Some s \<Rightarrow> s \<noteq> [])"

definition resolve_isin :: "string option \<Rightarrow> node \<Rightarrow> pyerr + string option" where
  "resolve_isin isin soup = (if truthy isin then Inr isin else get_isin_from_soup soup)"

definition py_upper :: "string \<Rightarrow> string" where
  "py_upper s = map upper_char s"

record 'v fundamentals =
  Quotes :: "'v table_dict option"
  Key_Ratios :: "'v table_dict option"
  Income_Statement :: "'v table_dict option"
  Balance_Sheet :: "'v table_dict option"
  ISIN :: string
  Other :: "'v table_dict option"

text \<open>
  \<open>get_fundamentals\<close>. The page loader \<open>_make_soup\<close> is the parameter \<open>make_soup\<close>: the
  page of a URL, or the exception of the request.
\<close>

definition get_fundamentals ::
  "(string \<Rightarrow> pyerr + node) \<Rightarrow> (string \<Rightarrow> 'v option) \<Rightarrow> string \<Rightarrow> pyerr + 'v fundamentals" where
  "get_fundamentals make_soup flt stock =
     (let (url, isin) = fundamentals_request stock
      in case make_soup url of
           Inl e \<Rightarrow> Inl e
         | Inr soup \<Rightarrow>
             (case check_site soup of
                Inl e \<Rightarrow> Inl e
              | Inr u \<Rightarrow>
                  (let quote_info = attempt (parse_table flt soup ''Die Aktie'');
                       key_ratios = attempt (parse_table flt soup ''Unternehmenskennzahlen'');
                       income_info = attempt (parse_table flt soup ''GuV'');
                       balance_sheet = attempt (parse_table flt soup ''Bilanz'')
                   in case resolve_isin isin soup of
                        Inl e \<Rightarrow> Inl e
                      | Inr isin \<Rightarrow>
                          (let other_info = attempt (parse_table flt soup ''sonstige Angaben'')
                           in case isin of
                                None \<Rightarrow> Inl AttributeError
                              | Some i \<Rightarrow>
                                  Inr \<lparr>Quotes = quote_info, Key_Ratios = key_ratios,
                                       Income_Statement = income_info,
                                       Balance_Sheet = balance_sheet,
                                       ISIN = py_upper i, Other = other_info\<rparr>))))"

text \<open>The category of the result that belongs to a signaler.\<close>

definition category :: "string \<Rightarrow> 'v fundamentals \<Rightarrow> 'v table_dict option" where
  "category signaler r =
     (if signaler = ''Die Aktie'' then Quotes r
      else if signaler = ''Unternehmenskennzahlen'' then Key_Ratios r
      else if signaler = ''GuV'' then Income_Statement r
      else if signaler = ''Bilanz'' then Balance_Sheet r
      else Other r)"

definition signalers :: "string list" where
  "signalers = [''Die Aktie'', ''Unternehmenskennzahlen'', ''GuV'', ''Bilanz'', ''sonstige Angaben'']"

section \<open>\<open>get_chart_infos\<close>\<close>

text \<open>
  \<open>_parse_table\<close> of \<open>get_chart_infos\<close>. The table library is a parameter: \<open>read_html\<close> is
  \<open>pd.read_html(table.prettify(), decimal=",", thousands=".")[0]\<close> followed by
  \<open>set_index\<close>, and \<open>to_dict\<close> is \<open>to_dict("index")\<close>; both may raise.
\<close>

definition parse_chart_table :: "(node \<Rightarrow> pyerr + 'df) \<Rightarrow> node \<Rightarrow> string \<Rightarrow> pyerr + 'df" where
  "parse_chart_table read_html soup signaler =
     (case find_parent
             (\<lambda>t. is_tag ''h3'' t \<and> text_matches signaler t \<and> has_class ''box-headline'' t) soup of
        Inl e \<Rightarrow> Inl e
      | Inr table \<Rightarrow> read_html table)"

record 'd chart_infos =
  chart_ISIN :: string
  Performance :: 'd

definition get_chart_infos ::
  "(string \<Rightarrow> pyerr + node) \<Rightarrow> (node \<Rightarrow> pyerr + 'df) \<Rightarrow> ('df \<Rightarrow> pyerr + 'd) \<Rightarrow> string
     \<Rightarrow> pyerr + 'd chart_infos" where
  "get_chart_infos make_soup read_html to_dict stock =
     (let (url, isin) = chart_request stock
      in case make_soup url of
           Inl e \<Rightarrow> Inl e
         | Inr soup \<Rightarrow>
             (case check_site soup of
                Inl e \<Rightarrow> Inl e
              | Inr u \<Rightarrow>
                  (let performance_info = attempt (parse_chart_table read_html soup ''Performance'')
                   in case resolve_isin isin soup of
                        Inl e \<Rightarrow> Inl e
                      | Inr isin \<Rightarrow>
                          (case isin of
                             None \<Rightarrow> Inl AttributeError
                           | Some i \<Rightarrow>
                               (case performance_info of
                                  None \<Rightarrow> Inl AttributeError
                                | Some df \<Rightarrow>
                                    (case to_dict df of
                                       Inl e \<Rightarrow> Inl e
                                     | Inr d \<Rightarrow>
                                         Inr \<lparr>chart_ISIN = py_upper i, Performance = d\<rparr>))))))"

section \<open>The values of a row in \<open>get_estimates\<close>\<close>

text \<open>The four list comprehensions of lines 225 to 228, over the cells of one row.\<close>

definition est_float :: "(string \<Rightarrow> 'v option) \<Rightarrow> string option \<Rightarrow> pyerr + 'v option" where
  "est_float flt x =
     (case x of
        None \<Rightarrow> Inr None
      | Some y \<Rightarrow> (case to_float flt y of Inl e \<Rightarrow> Inl e | Inr v \<Rightarrow> Inr (Some v)))"

definition est_row_data :: "(string \<Rightarrow> 'v option) \<Rightarrow> string list \<Rightarrow> pyerr + 'v option list" where
  "est_row_data flt row_data =
     (let row_data = map (\<lambda>x. if x \<noteq> ''-'' then Some x else None) row_data;
          row_data = map (map_option sub_non_digit_comma) row_data;
          row_data = map (map_option sub_comma) row_data
      in map_raise (est_float flt) row_data)"

section \<open>The functions on \<open>lxml\<close> pages\<close>

text \<open>
  A page parsed by \<open>html.fromstring\<close> is modelled by the answers to the XPath queries of
  the code. \<open>estimate_rows\<close> are the rows that \<open>xp_data\<close> selects in
  \<open>get_estimates_lxml\<close>, each row the list of its children and each child the list of
  its \<open>./text()\<close> nodes. \<open>sections name\<close> are the elements that \<open>xp_base\<close> selects for a
  table name in \<open>get_fundamentals_lxml\<close>; of each element the model keeps the texts of
  the header cells (\<open>.//table//thead//tr//th/text()\<close>) and, for every row of
  \<open>.//table//tr\<close>, the texts of its cells (\<open>.//td/text()\<close>).
\<close>

record lsection =
  th_texts :: "string list"
  tr_texts :: "string list list"

record lpage =
  estimate_rows :: "string list list list"
  sections :: "string \<Rightarrow> lsection list"

datatype 'v cell = Str string | Num 'v

text \<open>\<open>x.split(" ")[0]\<close>\<close>

definition first_word :: "string \<Rightarrow> string" where
  "first_word x = takeWhile (\<lambda>c. c \<noteq> CHR '' '') x"

text \<open>The conversion of the cells \<open>1\<close> and up of a body row, lines 327 to 330.\<close>

definition lxml_cell :: "(string \<Rightarrow> 'v option) \<Rightarrow> string \<Rightarrow> pyerr + 'v cell" where
  "lxml_cell flt x =
     (if \<not> x = ''-''
      then (case to_float flt (first_word (sub_comma (sub_dots x))) of
              Inl e \<Rightarrow> Inl e
            | Inr v \<Rightarrow> Inr (Num v))
      else Inr (Str x))"

definition lxml_row :: "(string \<Rightarrow> 'v option) \<Rightarrow> bool \<Rightarrow> string list list \<Rightarrow> pyerr + 'v cell list" where
  "lxml_row flt header_done data_element =
     (case map_raise (\<lambda>texts. case texts of [] \<Rightarrow> Inl IndexError | t # ts \<Rightarrow> Inr t) data_element of
        Inl e \<Rightarrow> Inl e
      | Inr table_row \<Rightarrow>
          if header_done
          then (case table_row of
                  [] \<Rightarrow> Inr []
                | c # cs \<Rightarrow>
                    (case map_raise (lxml_cell flt) cs of
                       Inl e \<Rightarrow> Inl e
                     | Inr cs' \<Rightarrow> Inr (Str c # cs')))
          else (case table_row of
                  [] \<Rightarrow> Inl IndexError
                | c # cs \<Rightarrow> Inr (Str ''Estimation'' # map Str cs)))"

text \<open>
  The loop of \<open>get_estimates_lxml\<close>. \<open>frame\<close> is the table library, a parameter: the data
  frame made of the rows collected so far, with the first row as column labels.
  \<open>dataframe\<close> is \<open>None\<close> until the first row assigns it.
\<close>

fun estimates_loop ::
  "(string \<Rightarrow> 'v option) \<Rightarrow> ('v cell list list \<Rightarrow> pyerr + 'df) \<Rightarrow> string list list list
     \<Rightarrow> bool \<Rightarrow> 'v cell list list \<Rightarrow> 'df option \<Rightarrow> pyerr + 'df option" where
  "estimates_loop flt frame [] header_done data_table dataframe = Inr dataframe"
| "estimates_loop flt frame (data_element # rest) header_done data_table dataframe =
     (case lxml_row flt header_done data_element of
        Inl e \<Rightarrow> Inl e
      | Inr table_row \<Rightarrow>
          (let data_table = data_table @ [table_row]
           in case frame data_table of
                Inl e \<Rightarrow> Inl e
              | Inr df \<Rightarrow> estimates_loop flt frame rest True data_table (Some df)))"

text \<open>
  \<open>get_estimates_lxml(stock, results=[])\<close>. \<open>requests.get\<close> with \<open>html.fromstring\<close> is the
  parameter \<open>fetch\<close>. The list of the default argument \<open>results\<close> is one object for all
  calls, so it is a state: the function takes its content and returns the content
  after the call, next to the outcome.
\<close>

definition get_estimates_lxml ::
  "(string \<Rightarrow> pyerr + lpage) \<Rightarrow> (string \<Rightarrow> 'v option) \<Rightarrow> ('v cell list list \<Rightarrow> pyerr + 'df)
     \<Rightarrow> string \<Rightarrow> 'r list \<Rightarrow> (pyerr + 'df) \<times> 'r list" where
  "get_estimates_lxml fetch flt frame stock results =
     (let url = ''https://www.finanzen.net/schaetzungen/'' @ stock
      in case fetch url of
           Inl e \<Rightarrow> (Inl e, results)
         | Inr parser \<Rightarrow>
             (case estimates_loop flt frame (estimate_rows parser) False [] None of
                Inl e \<Rightarrow> (Inl e, results)
              | Inr None \<Rightarrow> (Inl UnboundLocalError, results)
              | Inr (Some dataframe) \<Rightarrow> (Inr dataframe, results)))"

text \<open>
  \<open>get_parser\<close>: the function name is looked up, \<open>check_site_availability\<close> requests the
  base URL and turns a failure into \<open>SystemExit\<close>, then the page is requested.
\<close>

definition parser_functions :: "(string \<times> string) list" where
  "parser_functions =
     [(''search'', ''/suchergebnis.asp?_search=''), (''stock'', ''/aktien/''),
      (''estimates'', ''/schaetzungen/''), (''fundamentals'', ''/bilanz_guv/''),
      (''index'', ''/index/'')]"

definition get_parser :: "(string \<Rightarrow> pyerr + lpage) \<Rightarrow> string \<Rightarrow> string \<Rightarrow> pyerr + lpage" where
  "get_parser fetch function stock_name =
     (let base_url = ''https://www.finanzen.net''
      in case map_of parser_functions function of
           None \<Rightarrow> Inl ValueError
         | Some path \<Rightarrow>
             (case fetch base_url of
                Inl e \<Rightarrow> Inl SystemExit
              | Inr r \<Rightarrow> fetch (base_url @ path @ stock_name)))"

text \<open>The rows of one element: the first row is dropped, the cells \<open>1\<close> and up are cleaned.\<close>

definition lxml_clean_row :: "string list \<Rightarrow> string list" where
  "lxml_clean_row data =
     (case data of [] \<Rightarrow> [] | d # ds \<Rightarrow> d # map (\<lambda>x. sub_comma (sub_dots x)) ds)"

definition section_table :: "lsection \<Rightarrow> 'v cell list list" where
  "section_table data_element =
     map (map Str) (th_texts data_element # map lxml_clean_row (drop 1 (tr_texts data_element)))"

fun sections_loop ::
  "('v cell list list \<Rightarrow> pyerr + 'df) \<Rightarrow> lsection list \<Rightarrow> 'df list \<Rightarrow> pyerr + 'df list" where
  "sections_loop frame [] complete_data_set = Inr complete_data_set"
| "sections_loop frame (data_element # rest) complete_data_set =
     (case frame (section_table data_element) of
        Inl e \<Rightarrow> Inl e
      | Inr dataframe \<Rightarrow> sections_loop frame rest (complete_data_set @ [dataframe]))"

fun tables_loop ::
  "(string \<Rightarrow> pyerr + lpage) \<Rightarrow> ('v cell list list \<Rightarrow> pyerr + 'df) \<Rightarrow> string \<Rightarrow> string list
     \<Rightarrow> 'df list \<Rightarrow> pyerr + 'df list" where
  "tables_loop fetch frame stock [] complete_data_set = Inr complete_data_set"
| "tables_loop fetch frame stock (table # tables) complete_data_set =
     (case get_parser fetch ''fundamentals'' stock of
        Inl e \<Rightarrow> Inl e
      | Inr parser \<Rightarrow>
          (case sections_loop frame (sections parser table) complete_data_set of
             Inl e \<Rightarrow> Inl e
           | Inr complete_data_set' \<Rightarrow> tables_loop fetch frame stock tables complete_data_set'))"

text \<open>
  \<open>get_fundamentals_lxml(stock, results=[])\<close>, with \<open>pd.concat\<close> as the parameter
  \<open>concat_frames\<close> and the default list as a state, as above.
\<close>

definition get_fundamentals_lxml ::
  "(string \<Rightarrow> pyerr + lpage) \<Rightarrow> ('v cell list list \<Rightarrow> pyerr + 'df) \<Rightarrow> ('df list \<Rightarrow> pyerr + 'df)
     \<Rightarrow> string \<Rightarrow> 'r list \<Rightarrow> (pyerr + 'df) \<times> 'r list" where
  "get_fundamentals_lxml fetch frame concat_frames stock results =
     (case tables_loop fetch frame stock signalers [] of
        Inl e \<Rightarrow> (Inl e, results)
      | Inr complete_data_set \<Rightarrow> (concat_frames complete_data_set, results))"

text \<open>
  Two calls that leave \<open>results\<close> to its default: the second call finds the default list
  as the first call left it.
\<close>

definition two_calls ::
  "(string \<Rightarrow> 'r list \<Rightarrow> 'a \<times> 'r list) \<Rightarrow> string \<Rightarrow> string \<Rightarrow> 'r list \<Rightarrow> 'a \<times> 'a \<times> 'r list" where
  "two_calls f stock1 stock2 default_list =
     (let (out1, default_list) = f stock1 default_list;
          (out2, default_list) = f stock2 default_list
      in (out1, out2, default_list))"

section \<open>Example pages\<close>

text \<open>
  Pages in the layout that \<open>get_fundamentals\<close> expects: a section is a \<open>div\<close> with a
  heading and a table; the first row of the table holds the column labels after two
  leading cells; a body row holds a leading cell, the name of the row in a cell of class
  \<open>font-bold\<close>, and the values.
\<close>

definition example_row :: "string \<Rightarrow> string list \<Rightarrow> node" where
  "example_row name cells =
     Tag ''tr'' [] []
       (Tag ''td'' [] [] [] # Tag ''td'' [''font-bold''] [] [Text name]
        # map (\<lambda>s. Tag ''td'' [] [] [Text s]) cells)"

definition example_section :: "string \<Rightarrow> string list \<Rightarrow> node list \<Rightarrow> node" where
  "example_section title years rows =
     Tag ''div'' [] []
       [Tag ''h2'' [] [] [Text title],
        Tag ''table'' [] []
          (Tag ''tr'' [] []
             (Tag ''th'' [] [] [] # Tag ''th'' [] [] []
              # map (\<lambda>s. Tag ''th'' [] [] [Text s]) years)
           # rows)]"

definition sap_meta :: node where
  "sap_meta =
     Tag ''meta'' [] [(''property'', ''og:title''), (''content'', ''SAP Aktie DE0007164600'')] []"

definition quotes_section :: node where
  "quotes_section =
     example_section ''Die Aktie'' [''2021''] [example_row ''Ergebnis je Aktie'' [''4,46'']]"

definition ratios_section :: node where
  "ratios_section =
     example_section ''Unternehmenskennzahlen'' [''2021'']
       [example_row ''Umsatz je Aktie'' [''23,60'']]"

definition income_section :: node where
  "income_section = example_section ''GuV'' [''2021''] [example_row ''Umsatz'' [''27.842,00'']]"

definition balance_section :: node where
  "balance_section =
     example_section ''Bilanz'' [''2021''] [example_row ''Bilanzsumme'' [''71.169,00'']]"

definition other_section :: node where
  "other_section = example_section ''sonstige Angaben'' [''2021''] [example_row ''Personal'' [''-'']]"

text \<open>A page of \<open>bilanz_guv\<close> with its ISIN and four sections, the balance sheet missing.\<close>

definition page_without_balance :: node where
  "page_without_balance =
     Tag ''[document]'' [] []
       [sap_meta, quotes_section, ratios_section, income_section, other_section]"

text \<open>A page of \<open>aktien\<close> with its ISIN and without a heading \<open>Performance\<close>.\<close>

definition page_without_performance :: node where
  "page_without_performance =
     Tag ''[document]'' [] []
       [sap_meta, Tag ''div'' [] [] [Tag ''h3'' [''box-headline''] [] [Text ''Kursdaten'']]]"

text \<open>
  A section with two column labels whose rows have one value and three values.
\<close>

definition ragged_page :: node where
  "ragged_page =
     Tag ''[document]'' [] []
       [sap_meta,
        example_section ''Bilanz'' [''2020'', ''2021'']
          [example_row ''Eigenkapital'' [''1,0''],
           example_row ''Bilanzsumme'' [''1,0'', ''2,0'', ''3,0'']]]"

text \<open>
  A page with the five sections; in the first one a cell is no number, \<open>k.A.\<close>, next to
  good cells.
\<close>

definition bad_row :: node where
  "bad_row = example_row ''Dividende je Aktie'' [''k.A.'', ''1,95'']"

definition bad_quotes_section :: node where
  "bad_quotes_section =
     example_section ''Die Aktie'' [''2020'', ''2021'']
       [example_row ''Ergebnis je Aktie'' [''4,35'', ''4,46''], bad_row]"

definition page_with_bad_cell :: node where
  "page_with_bad_cell =
     Tag ''[document]'' [] []
       [sap_meta, bad_quotes_section, ratios_section, income_section, balance_section,
        other_section]"

text \<open>A page without the \<open>og:title\<close> metadata.\<close>

definition page_without_isin :: node where
  "page_without_isin = Tag ''[document]'' [] [] [quotes_section]"

text \<open>A site that answers every request with the same page.\<close>

definition serve :: "node \<Rightarrow> string \<Rightarrow> pyerr + node" where
  "serve page url = Inr page"

section \<open>Notions for the statements about the table parser\<close>

text \<open>
  The section that \<open>_parse_table\<close> locates for a signaler, the cell that names a row, and
  the texts of the value cells of a row.
\<close>

definition row_cells :: "node \<Rightarrow> string list" where
  "row_cells row = map get_text (drop 2 (find_all ''td'' row))"

definition name_cell :: "node \<Rightarrow> node option" where
  "name_cell row = find_tag (\<lambda>t. is_tag ''td'' t \<and> has_class ''font-bold'' t) row"

definition section_of :: "node \<Rightarrow> string \<Rightarrow> pyerr + node" where
  "section_of soup signaler = find_parent (\<lambda>t. is_tag ''h2'' t \<and> text_matches signaler t) soup"

section \<open>Example pages for the functions on \<open>lxml\<close> pages\<close>

definition lxml_page_sap :: lpage where
  "lxml_page_sap =
     \<lparr>estimate_rows =
        [[['' ''], [''2024e''], [''2025e'']],
         [[''Umsatz''], [''31.000,50 EUR''], [''-'']]],
      sections = (\<lambda>name.
        if name = ''Bilanz''
        then [\<lparr>th_texts = [''2020''], tr_texts = [[], [''Bilanzsumme'', ''58.472,00'']]\<rparr>]
        else [])\<rparr>"

definition lxml_page_bmw :: lpage where
  "lxml_page_bmw =
     \<lparr>estimate_rows =
        [[['' ''], [''2024e'']],
         [[''Dividende''], [''6,00 EUR'']]],
      sections = (\<lambda>name.
        if name = ''GuV''
        then [\<lparr>th_texts = [''2021''], tr_texts = [[], [''Umsatz'', ''111.239,00'']]\<rparr>]
        else [])\<rparr>"

definition example_fetch :: "string \<Rightarrow> pyerr + lpage" where
  "example_fetch url =
     (if url = ''https://www.finanzen.net'' then Inr \<lparr>estimate_rows = [], sections = (\<lambda>name. [])\<rparr>
      else if url = ''https://www.finanzen.net/schaetzungen/sap''
            \<or> url = ''https://www.finanzen.net/bilanz_guv/sap'' then Inr lxml_page_sap
      else if url = ''https://www.finanzen.net/schaetzungen/bmw''
            \<or> url = ''https://www.finanzen.net/bilanz_guv/bmw'' then Inr lxml_page_bmw
      else Inl RequestError)"

text \<open>A table library that keeps the rows as they are, for the examples.\<close>

definition rows_frame :: "'v cell list list \<Rightarrow> pyerr + 'v cell list list" where
  "rows_frame data_table = Inr data_table"

definition rows_concat :: "'v cell list list list \<Rightarrow> pyerr + 'v cell list list" where
  "rows_concat frames = (if frames = [] then Inl ValueError else Inr (concat frames))"

section \<open>Properties of the ISIN extractor and of the request URL\<close>

lemma class_match_append:
  "class_match ps m \<Longrightarrow> class_match ps (m @ post)"
  by (induction ps m rule: class_match.induct) auto

lemma class_match_length: "class_match ps s \<Longrightarrow> length ps \<le> length s"
  by (induction ps s rule: class_match.induct) auto

lemma class_match_take:
  "class_match ps s \<Longrightarrow> class_match ps (take (length ps) s)"
  by (induction ps s rule: class_match.induct) auto

lemma full_match_take:
  "class_match ps s \<Longrightarrow> full_match ps (take (length ps) s)"
  by (simp add: full_match_def class_match_take class_match_length min_absorb2)

lemma re_search_Some:
  "re_search ps s = Some m \<Longrightarrow>
     \<exists>pre post. s = pre @ m @ post \<and> full_match ps m \<and>
       (\<forall>pre' m' post'. s = pre' @ m' @ post' \<and> full_match ps m' \<longrightarrow> length pre \<le> length pre')"
proof (induction s)
  case Nil
  then show ?case by (auto simp: full_match_def split: if_splits elim: class_match.elims)
next
  case (Cons c cs)
  show ?case
  proof (cases "class_match ps (c # cs)")
    case True
    with Cons.prems have m: "m = take (length ps) (c # cs)" by simp
    have "c # cs = [] @ m @ drop (length ps) (c # cs)" using m by simp
    moreover have "full_match ps m" using True m full_match_take by blast
    ultimately show ?thesis by (metis le0 list.size(3))
  next
    case False
    with Cons.prems have "re_search ps cs = Some m" by simp
    from Cons.IH[OF this] obtain pre post where
      s: "cs = pre @ m @ post" and fm: "full_match ps m" and
      first: "\<forall>pre' m' post'. cs = pre' @ m' @ post' \<and> full_match ps m' \<longrightarrow> length pre \<le> length pre'"
      by blast
    have "length (c # pre) \<le> length pre'"
      if "c # cs = pre' @ m' @ post'" and "full_match ps m'" for pre' m' post'
    proof (cases pre')
      case Nil
      with that have "class_match ps (c # cs)"
        by (simp add: full_match_def class_match_append)
      with False show ?thesis by simp
    next
      case (Cons a pre'')
      with that have "cs = pre'' @ m' @ post'" by simp
      with first that(2) have "length pre \<le> length pre''" by blast
      with Cons show ?thesis by simp
    qed
    moreover have "c # cs = (c # pre) @ m @ post" using s by simp
    ultimately show ?thesis using fm by blast
  qed
qed

lemma re_search_None:
  "re_search ps s = None \<Longrightarrow> s = pre @ m @ post \<Longrightarrow> \<not> full_match ps m"
proof (induction s arbitrary: pre)
  case Nil
  then show ?case by (auto simp: full_match_def split: if_splits)
next
  case (Cons c cs)
  from Cons.prems(1) have nm: "\<not> class_match ps (c # cs)" and r: "re_search ps cs = None"
    by (auto split: if_splits)
  show ?case
  proof (cases pre)
    case Nil
    with Cons.prems(2) nm show ?thesis
      by (auto simp: full_match_def dest: class_match_append)
  next
    case (Cons a pre')
    with Cons.prems(2) have "cs = pre' @ m @ post" by simp
    from Cons.IH[OF r this] show ?thesis .
  qed
qed

lemma length9:
  "length (xs::'a list) = 9 \<longleftrightarrow> (\<exists>c1 c2 c3 c4 c5 c6 c7 c8 c9. xs = [c1,c2,c3,c4,c5,c6,c7,c8,c9])"
  by (auto simp: length_Suc_conv eval_nat_numeral)

lemma isin_pattern_unfold:
  "isin_pattern = [cls_letter, cls_letter, cls_upper_digit, cls_upper_digit, cls_upper_digit,
     cls_upper_digit, cls_upper_digit, cls_upper_digit, cls_upper_digit, cls_upper_digit,
     cls_upper_digit, is_digit]"
  by (simp add: isin_pattern_def eval_nat_numeral)

lemmas char_classes = cls_letter_def cls_upper_digit_def is_digit_def is_upper_def is_lower_def

text \<open>
  What a full match of the pattern of the code is: two ASCII letters of either case,
  nine characters that are capital letters or digits, one digit.
\<close>

lemma full_match_isin_iff:
  "full_match isin_pattern m \<longleftrightarrow>
     (\<exists>a b mid d. m = [a, b] @ mid @ [d] \<and> cls_letter a \<and> cls_letter b \<and> length mid = 9 \<and>
        (\<forall>c\<in>set mid. is_upper c \<or> is_digit c) \<and> is_digit d)"
proof
  assume fm: "full_match isin_pattern m"
  then have "length m = 12" by (simp add: full_match_def isin_pattern_unfold)
  then obtain a b c1 c2 c3 c4 c5 c6 c7 c8 c9 d where
    m: "m = [a, b, c1, c2, c3, c4, c5, c6, c7, c8, c9, d]"
    by (auto simp: length_Suc_conv eval_nat_numeral)
  have "m = [a, b] @ [c1, c2, c3, c4, c5, c6, c7, c8, c9] @ [d]" using m by simp
  moreover have "cls_letter a \<and> cls_letter b \<and> is_digit d \<and>
      (\<forall>c\<in>set [c1, c2, c3, c4, c5, c6, c7, c8, c9]. is_upper c \<or> is_digit c)"
    using fm unfolding m by (simp add: full_match_def isin_pattern_unfold cls_upper_digit_def)
  ultimately show "\<exists>a b mid d. m = [a, b] @ mid @ [d] \<and> cls_letter a \<and> cls_letter b \<and>
      length mid = 9 \<and> (\<forall>c\<in>set mid. is_upper c \<or> is_digit c) \<and> is_digit d"
    by (metis length9)
next
  assume "\<exists>a b mid d. m = [a, b] @ mid @ [d] \<and> cls_letter a \<and> cls_letter b \<and>
      length mid = 9 \<and> (\<forall>c\<in>set mid. is_upper c \<or> is_digit c) \<and> is_digit d"
  then obtain a b mid d where m: "m = [a, b] @ mid @ [d]" and l: "cls_letter a" "cls_letter b"
    and len: "length mid = 9" and mid: "\<forall>c\<in>set mid. is_upper c \<or> is_digit c" and d: "is_digit d"
    by blast
  from len obtain c1 c2 c3 c4 c5 c6 c7 c8 c9 where "mid = [c1,c2,c3,c4,c5,c6,c7,c8,c9]"
    unfolding length9 by blast
  with m l mid d show "full_match isin_pattern m"
    by (simp add: full_match_def isin_pattern_unfold cls_upper_digit_def)
qed

lemma parse_for_isin_self: "full_match isin_pattern s \<Longrightarrow> parse_for_isin s = Some s"
  by (cases s) (auto simp: parse_for_isin_def full_match_def)

text \<open>No match of the pattern starts inside the prefix of the search URL.\<close>

lemma search_url_no_match: "re_search isin_pattern (search_url @ s) = re_search isin_pattern s"
  by (simp add: search_url_def isin_pattern_unfold char_classes)

text \<open>
  C5, as amended. \<open>parse_for_isin\<close> returns the leftmost substring that matches the
  pattern of the code, and \<open>None\<close> exactly when no substring matches it. The pattern is
  two ASCII letters of either case, then nine characters that are capital letters or
  digits (small letters do not match there), then one digit.
\<close>

theorem parse_for_isin_first_match:
  "(parse_for_isin s = Some m \<longrightarrow>
      (\<exists>pre post. s = pre @ m @ post \<and> full_match isin_pattern m \<and>
         (\<forall>pre' m' post'. s = pre' @ m' @ post' \<and> full_match isin_pattern m' \<longrightarrow>
            length pre \<le> length pre'))) \<and>
   (parse_for_isin s = None \<longleftrightarrow>
      \<not> (\<exists>pre m post. s = pre @ m @ post \<and> full_match isin_pattern m)) \<and>
   (full_match isin_pattern m \<longleftrightarrow>
      (\<exists>a b mid d. m = [a, b] @ mid @ [d] \<and> cls_letter a \<and> cls_letter b \<and> length mid = 9 \<and>
         (\<forall>c\<in>set mid. is_upper c \<or> is_digit c) \<and> is_digit d))"
proof (intro conjI impI)
  assume "parse_for_isin s = Some m"
  then show "\<exists>pre post. s = pre @ m @ post \<and> full_match isin_pattern m \<and>
      (\<forall>pre' m' post'. s = pre' @ m' @ post' \<and> full_match isin_pattern m' \<longrightarrow>
         length pre \<le> length pre')"
    unfolding parse_for_isin_def by (rule re_search_Some)
next
  show "parse_for_isin s = None \<longleftrightarrow>
      \<not> (\<exists>pre m post. s = pre @ m @ post \<and> full_match isin_pattern m)"
  proof
    assume "parse_for_isin s = None"
    then show "\<not> (\<exists>pre m post. s = pre @ m @ post \<and> full_match isin_pattern m)"
      unfolding parse_for_isin_def using re_search_None by blast
  next
    assume no: "\<not> (\<exists>pre m post. s = pre @ m @ post \<and> full_match isin_pattern m)"
    show "parse_for_isin s = None"
    proof (cases "parse_for_isin s")
      case None
      then show ?thesis .
    next
      case (Some m')
      then have "\<exists>pre post. s = pre @ m' @ post \<and> full_match isin_pattern m'"
        unfolding parse_for_isin_def using re_search_Some by blast
      with no show ?thesis by blast
    qed
  qed
next
  show "full_match isin_pattern m \<longleftrightarrow>
      (\<exists>a b mid d. m = [a, b] @ mid @ [d] \<and> cls_letter a \<and> cls_letter b \<and> length mid = 9 \<and>
         (\<forall>c\<in>set mid. is_upper c \<or> is_digit c) \<and> is_digit d)"
    by (rule full_match_isin_iff)
qed

theorem parse_for_isin_first_match_witness:
  "parse_for_isin ''SAP US0378331005 DE000A1EWWW0'' = Some ''US0378331005'' \<and>
   (\<exists>pre post. ''SAP US0378331005 DE000A1EWWW0'' = pre @ ''US0378331005'' @ post \<and>
      full_match isin_pattern ''US0378331005'' \<and>
      (\<forall>pre' m' post'. ''SAP US0378331005 DE000A1EWWW0'' = pre' @ m' @ post' \<and>
          full_match isin_pattern m' \<longrightarrow> length pre \<le> length pre'))"
proof -
  have e: "parse_for_isin ''SAP US0378331005 DE000A1EWWW0'' = Some ''US0378331005''"
    by (simp add: parse_for_isin_def isin_pattern_unfold char_classes)
  with parse_for_isin_first_match
    [of "''SAP US0378331005 DE000A1EWWW0''" "''US0378331005''"]
  show ?thesis by blast
qed

text \<open>
  The claim C5 as the spec words it fails: \<open>de000a1ewww0\<close> is two letters, nine
  alphanumeric characters and a digit, and \<open>parse_for_isin\<close> finds nothing in it.
\<close>

theorem parse_for_isin_spec_pattern_counterexample:
  "full_match spec_isin_pattern ''de000a1ewww0'' \<and> parse_for_isin ''de000a1ewww0'' = None"
  by (simp add: full_match_def spec_isin_pattern_def spec_alnum_def eval_nat_numeral
      parse_for_isin_def isin_pattern_unfold char_classes)

text \<open>
  C6. \<open>get_fundamentals\<close> and \<open>get_chart_infos\<close> put the stock in lower case before
  \<open>join_url\<close> looks for an ISIN. The ISIN \<open>DE000A1EWWW0\<close>, which \<open>parse_for_isin\<close> finds
  in the input as given, is not found in \<open>de000a1ewww0\<close>: the request goes to the direct
  endpoint of the category and not to the search endpoint, and no ISIN comes from the
  input.
\<close>

theorem request_of_isin_with_letters:
  "parse_for_isin ''DE000A1EWWW0'' = Some ''DE000A1EWWW0'' \<and>
   fundamentals_request ''DE000A1EWWW0'' = (''https://www.finanzen.net/bilanz_guv/de000a1ewww0'', None) \<and>
   chart_request ''DE000A1EWWW0'' = (''https://www.finanzen.net/aktien/de000a1ewww0'', None)"
  by code_simp

text \<open>The input of the scenario has digits only after the country code, and is found.\<close>

lemma request_of_DE0007164600:
  "fundamentals_request ''DE0007164600'' =
     (''https://www.finanzen.net/suchergebnis.asp?_search=de0007164600'', Some ''de0007164600'') \<and>
   chart_request ''DE0007164600'' =
     (''https://www.finanzen.net/suchergebnis.asp?_search=de0007164600'', Some ''de0007164600'')"
  by code_simp

text \<open>Whenever \<open>join_url\<close> finds an ISIN in the value it is given, the URL is the search URL.\<close>

lemma join_url_search:
  "parse_for_isin v \<noteq> None \<Longrightarrow> join_url url v = (search_url @ v, parse_for_isin v)"
  by (simp add: join_url_def Let_def)

lemma join_url_direct:
  "parse_for_isin v = None \<Longrightarrow> join_url url v = (url @ v, None)"
  by (simp add: join_url_def Let_def)

text \<open>
  C7. For every input that is an ISIN (a full match of the pattern), the ISIN extractor
  finds in the URL of \<open>join_url\<close> the same ISIN that \<open>join_url\<close> returns, which is the
  input.
\<close>

theorem join_url_roundtrip:
  "full_match isin_pattern s \<Longrightarrow>
     parse_for_isin (fst (join_url url s)) = snd (join_url url s) \<and>
     snd (join_url url s) = Some s"
  using parse_for_isin_self[of s] search_url_no_match[of s]
  by (simp add: join_url_def parse_for_isin_def Let_def)

theorem join_url_roundtrip_witness:
  "full_match isin_pattern ''DE0007164600'' \<and>
   parse_for_isin (fst (join_url fundamentals_base ''DE0007164600'')) =
     snd (join_url fundamentals_base ''DE0007164600'') \<and>
   snd (join_url fundamentals_base ''DE0007164600'') = Some ''DE0007164600''"
proof -
  have h: "full_match isin_pattern ''DE0007164600''"
    by (simp add: full_match_def isin_pattern_unfold char_classes)
  from join_url_roundtrip[OF h, of fundamentals_base] h show ?thesis by simp
qed

section \<open>Properties of the numeric normalisation\<close>

lemma digit_not_punct:
  "is_digit c \<Longrightarrow> c \<noteq> CHR ''.'' \<and> c \<noteq> CHR '','' \<and> c \<noteq> CHR ''-'' \<and> c \<noteq> CHR ''+''"
  by (auto simp: is_digit_def)

lemma sub_dots_digits: "list_all is_digit fs \<Longrightarrow> sub_dots fs = fs"
  unfolding sub_dots_def by (induction fs) (auto dest: digit_not_punct)

lemma sub_comma_digits: "list_all is_digit fs \<Longrightarrow> sub_comma fs = fs"
  unfolding sub_comma_def by (induction fs) (auto dest: digit_not_punct)

lemma sub_ndc_digits: "list_all is_digit fs \<Longrightarrow> sub_non_digit_comma fs = fs"
  unfolding sub_non_digit_comma_def by (induction fs) auto

lemma sub_dots_append: "sub_dots (xs @ ys) = sub_dots xs @ sub_dots ys"
  by (simp add: sub_dots_def)

lemma sub_comma_append: "sub_comma (xs @ ys) = sub_comma xs @ sub_comma ys"
  by (simp add: sub_comma_def)

lemma sub_ndc_append:
  "sub_non_digit_comma (xs @ ys) = sub_non_digit_comma xs @ sub_non_digit_comma ys"
  by (simp add: sub_non_digit_comma_def)

lemma sub_dots_join:
  "\<forall>g\<in>set gs. list_all is_digit g \<Longrightarrow> sub_dots (join_dots gs) = concat gs"
proof (induction gs rule: join_dots.induct)
  case 1
  then show ?case by (simp add: sub_dots_def)
next
  case (2 g)
  then show ?case by (simp add: sub_dots_digits)
next
  case (3 g h gs)
  have "sub_dots (CHR ''.'' # xs) = sub_dots xs" for xs by (simp add: sub_dots_def)
  with 3 show ?case by (simp add: sub_dots_append sub_dots_digits)
qed

lemma sub_ndc_join:
  "\<forall>g\<in>set gs. list_all is_digit g \<Longrightarrow> sub_non_digit_comma (join_dots gs) = concat gs"
proof (induction gs rule: join_dots.induct)
  case 1
  then show ?case by (simp add: sub_non_digit_comma_def)
next
  case (2 g)
  then show ?case by (simp add: sub_ndc_digits)
next
  case (3 g h gs)
  have "sub_non_digit_comma (CHR ''.'' # xs) = sub_non_digit_comma xs" for xs
    by (simp add: sub_non_digit_comma_def is_digit_def)
  with 3 show ?case by (simp add: sub_ndc_append sub_ndc_digits)
qed

lemma digits_concat: "\<forall>g\<in>set gs. list_all is_digit g \<Longrightarrow> list_all is_digit (concat gs)"
  by (auto simp: list_all_iff)

lemma fund_clean_localized:
  assumes "\<forall>g\<in>set gs. list_all is_digit g" "list_all is_digit fs"
  shows "fund_clean (localized gs fs) = concat gs @ ''.'' @ fs"
proof -
  have "sub_dots (CHR '','' # xs) = CHR '','' # sub_dots xs" for xs by (simp add: sub_dots_def)
  then have "sub_dots (localized gs fs) = concat gs @ '','' @ fs"
    using assms by (simp add: localized_def sub_dots_append sub_dots_join sub_dots_digits)
  moreover have "sub_comma (CHR '','' # xs) = CHR ''.'' # sub_comma xs" for xs
    by (simp add: sub_comma_def)
  ultimately show ?thesis
    using digits_concat[OF assms(1)] assms(2)
    by (simp add: fund_clean_def sub_comma_append sub_comma_digits)
qed

lemma est_clean_localized:
  assumes "\<forall>g\<in>set gs. list_all is_digit g" "list_all is_digit fs"
  shows "est_clean (localized gs fs) = concat gs @ ''.'' @ fs"
proof -
  have "sub_non_digit_comma (CHR '','' # xs) = CHR '','' # sub_non_digit_comma xs" for xs
    by (simp add: sub_non_digit_comma_def)
  then have "sub_non_digit_comma (localized gs fs) = concat gs @ '','' @ fs"
    using assms by (simp add: localized_def sub_ndc_append sub_ndc_join sub_ndc_digits)
  moreover have "sub_comma (CHR '','' # xs) = CHR ''.'' # sub_comma xs" for xs
    by (simp add: sub_comma_def)
  ultimately show ?thesis
    using digits_concat[OF assms(1)] assms(2)
    by (simp add: est_clean_def sub_comma_append sub_comma_digits)
qed

lemma est_clean_minus: "est_clean (CHR ''-'' # x) = est_clean x"
  by (simp add: est_clean_def sub_non_digit_comma_def is_digit_def)

lemma fund_clean_minus: "fund_clean (CHR ''-'' # x) = CHR ''-'' # fund_clean x"
  by (simp add: fund_clean_def sub_comma_def sub_dots_def)

lemma unsigned_float_decimal:
  assumes "list_all is_digit ds" "list_all is_digit fs" "ds \<noteq> [] \<or> fs \<noteq> []"
  shows "unsigned_float (ds @ ''.'' @ fs) = Some (decimal_value ds fs)"
proof -
  have nd: "\<not> is_digit CHR ''.''" using digit_not_punct by blast
  have "takeWhile is_digit (ds @ CHR ''.'' # fs) = ds"
    using assms(1) nd by (simp add: list_all_iff takeWhile_append2)
  moreover have "dropWhile is_digit (ds @ CHR ''.'' # fs) = CHR ''.'' # fs"
    using assms(1) nd by (simp add: list_all_iff dropWhile_append2)
  ultimately show ?thesis using assms by (simp add: unsigned_float_def decimal_value_def)
qed

lemma py_float_decimal:
  assumes "list_all is_digit ds" "list_all is_digit fs" "ds \<noteq> []"
  shows "py_float (ds @ ''.'' @ fs) = Some (decimal_value ds fs)"
proof -
  from assms(3) obtain d ds' where ds: "ds = d # ds'" by (cases ds) auto
  with assms(1) have "is_digit d" by simp
  then have "d \<noteq> CHR ''-''" "d \<noteq> CHR ''+''" using digit_not_punct by blast+
  then have "py_float (ds @ ''.'' @ fs) = unsigned_float (ds @ ''.'' @ fs)"
    by (simp add: py_float_def ds)
  with unsigned_float_decimal[OF assms(1,2)] assms(3) show ?thesis by simp
qed

lemma py_float_minus_decimal:
  assumes "list_all is_digit ds" "list_all is_digit fs" "ds \<noteq> []"
  shows "py_float (CHR ''-'' # ds @ ''.'' @ fs) = Some (- decimal_value ds fs)"
  using unsigned_float_decimal[OF assms(1,2)] assms(3) by (simp add: py_float_def)

lemma decimal_value_nonneg: "0 \<le> decimal_value ds fs"
  by (simp add: decimal_value_def)

lemmas float_eval = fund_cell_def float_or_none_def fund_clean_def sub_dots_def sub_comma_def
  to_float_def py_float_def unsigned_float_def is_digit_def digits_val_def digit_val_def
  est_cell_def est_clean_def sub_non_digit_comma_def

text \<open>
  The cells of a row: the comprehensions of \<open>_parse_table\<close> and of \<open>get_estimates\<close> apply
  \<open>fund_cell\<close> and \<open>est_cell\<close> to every cell, from left to right.
\<close>

lemma map_raise_map: "map_raise f (map g xs) = map_raise (\<lambda>x. f (g x)) xs"
  by (induction xs) (simp_all split: sum.splits)

lemma parse_row_cells:
  "map_raise (float_or_none flt) (map sub_comma (map sub_dots xs)) = map_raise (fund_cell flt) xs"
proof -
  have "fund_cell flt = (\<lambda>x. float_or_none flt (sub_comma (sub_dots x)))"
    by (rule ext) (simp add: fund_cell_def fund_clean_def)
  then show ?thesis by (simp add: map_raise_map)
qed

lemma est_row_data_cells: "est_row_data flt xs = map_raise (est_cell flt) xs"
proof -
  have "est_cell flt =
      (\<lambda>x. est_float flt (map_option sub_comma (map_option sub_non_digit_comma
          (if x \<noteq> ''-'' then Some x else None))))"
    by (rule ext) (simp add: est_cell_def est_float_def est_clean_def)
  then show ?thesis by (simp add: est_row_data_def map_raise_map)
qed

text \<open>
  C2. In the fundamentals normalizer every full stop is deleted first and the comma is
  turned into a full stop after that. A cell of the localised form (groups of digits
  separated by full stops, a comma, the digits of the fraction) is cleaned to the plain
  decimal numeral and becomes the number it denotes; \<open>"1.234,56"\<close> becomes \<open>1234.56\<close>;
  the cell \<open>"-"\<close> becomes \<open>None\<close>, whatever \<open>float\<close> does.
\<close>

theorem fund_cell_localized:
  assumes "\<forall>g\<in>set gs. list_all is_digit g" and "concat gs \<noteq> []" and "list_all is_digit fs"
  shows "fund_clean x = sub_comma (sub_dots x) \<and>
         fund_clean (localized gs fs) = concat gs @ ''.'' @ fs \<and>
         fund_cell flt (localized gs fs) = float_or_none flt (concat gs @ ''.'' @ fs) \<and>
         fund_cell py_float (localized gs fs) = Inr (Some (decimal_value (concat gs) fs)) \<and>
         fund_cell py_float ''1.234,56'' = Inr (Some (123456 / 100)) \<and>
         fund_cell flt ''-'' = Inr None"
proof -
  have c: "fund_clean (localized gs fs) = concat gs @ ''.'' @ fs"
    using assms(1,3) by (rule fund_clean_localized)
  have f: "py_float (concat gs @ ''.'' @ fs) = Some (decimal_value (concat gs) fs)"
    using digits_concat[OF assms(1)] assms(3,2) by (rule py_float_decimal)
  have n: "concat gs @ ''.'' @ fs \<noteq> ''-''"
    using assms(2) by (cases "concat gs") auto
  have "fund_cell py_float (localized gs fs) = Inr (Some (decimal_value (concat gs) fs))"
    using c f n by (simp add: fund_cell_def float_or_none_def to_float_def)
  moreover have "fund_cell py_float ''1.234,56'' = Inr (Some (123456 / 100))"
    by (simp add: float_eval)
  moreover have "fund_cell flt ''-'' = Inr None"
    by (simp add: fund_cell_def float_or_none_def fund_clean_def sub_dots_def sub_comma_def)
  ultimately show ?thesis using c by (simp add: fund_cell_def fund_clean_def)
qed

theorem fund_cell_localized_witness:
  "list_all (list_all is_digit) [''1'', ''234''] \<and> concat [''1'', ''234''] \<noteq> [] \<and>
   list_all is_digit ''56'' \<and> localized [''1'', ''234''] ''56'' = ''1.234,56'' \<and>
   decimal_value (concat [''1'', ''234'']) ''56'' = 123456 / 100 \<and>
   (fund_clean ''1.234,56'' = sub_comma (sub_dots ''1.234,56'') \<and>
    fund_clean (localized [''1'', ''234''] ''56'') = concat [''1'', ''234''] @ ''.'' @ ''56'' \<and>
    fund_cell py_float (localized [''1'', ''234''] ''56'') =
      float_or_none py_float (concat [''1'', ''234''] @ ''.'' @ ''56'') \<and>
    fund_cell py_float (localized [''1'', ''234''] ''56'') =
      Inr (Some (decimal_value (concat [''1'', ''234'']) ''56'')) \<and>
    fund_cell py_float ''1.234,56'' = Inr (Some (123456 / 100)) \<and>
    fund_cell py_float ''-'' = Inr None)"
proof -
  have h1: "\<forall>g\<in>set [''1'', ''234'']. list_all is_digit g" by (simp add: is_digit_def)
  have h2: "concat [''1'', ''234''] \<noteq> []" by simp
  have h3: "list_all is_digit ''56''" by (simp add: is_digit_def)
  have l: "localized [''1'', ''234''] ''56'' = ''1.234,56''" by (simp add: localized_def)
  have d: "decimal_value (concat [''1'', ''234'']) ''56'' = 123456 / 100"
    by (simp add: decimal_value_def digits_val_def digit_val_def)
  have h0: "list_all (list_all is_digit) [''1'', ''234'']" by (simp add: is_digit_def)
  from fund_cell_localized[OF h1 h2 h3, of "''1.234,56''" py_float] h0 h2 h3 l d
  show ?thesis by blast
qed

text \<open>
  C10. The estimates normalizer keeps digits and commas only, so a minus sign in front of
  a cell is lost: the cell with the sign gives what the cell without it gives. For a
  negative number in the localised form the result is its absolute value, where
  the fundamentals normalizer gives the negative number; \<open>"-1,5"\<close> becomes \<open>1.5\<close>.
\<close>

theorem est_cell_loses_sign:
  assumes "\<forall>g\<in>set gs. list_all is_digit g" and "concat gs \<noteq> []" and "list_all is_digit fs"
    and "x \<noteq> []" and "x \<noteq> ''-''"
  shows "(\<forall>c\<in>set (sub_non_digit_comma y). is_digit c \<or> c = CHR '','') \<and>
         est_clean (CHR ''-'' # y) = est_clean y \<and>
         est_cell flt (CHR ''-'' # x) = est_cell flt x \<and>
         fund_cell py_float (CHR ''-'' # localized gs fs) = Inr (Some (- decimal_value (concat gs) fs)) \<and>
         est_cell py_float (CHR ''-'' # localized gs fs) = Inr (Some \<bar>- decimal_value (concat gs) fs\<bar>) \<and>
         est_cell py_float ''-1,5'' = Inr (Some (3 / 2))"
proof -
  have ds: "list_all is_digit (concat gs)" using assms(1) by (rule digits_concat)
  have "est_cell flt (CHR ''-'' # x) = est_cell flt x"
    using assms(4,5) by (simp add: est_cell_def est_clean_minus)
  moreover have "fund_cell py_float (CHR ''-'' # localized gs fs) =
      Inr (Some (- decimal_value (concat gs) fs))"
    using fund_clean_localized[OF assms(1,3)] py_float_minus_decimal[OF ds assms(3,2)]
    by (simp add: fund_cell_def float_or_none_def to_float_def fund_clean_minus)
  moreover have "est_cell py_float (CHR ''-'' # localized gs fs) =
      Inr (Some \<bar>- decimal_value (concat gs) fs\<bar>)"
    using est_clean_localized[OF assms(1,3)] py_float_decimal[OF ds assms(3,2)]
      decimal_value_nonneg[of "concat gs" fs]
    by (simp add: est_cell_def to_float_def est_clean_minus localized_def)
  moreover have "est_cell py_float ''-1,5'' = Inr (Some (3 / 2))"
    by (simp add: float_eval)
  ultimately show ?thesis
    by (simp add: est_clean_minus sub_non_digit_comma_def)
qed

theorem est_cell_loses_sign_witness:
  "list_all (list_all is_digit) [''1''] \<and> concat [''1''] \<noteq> [] \<and> list_all is_digit ''5'' \<and>
   ''1,5'' \<noteq> [] \<and> ''1,5'' \<noteq> ''-'' \<and> localized [''1''] ''5'' = ''1,5'' \<and>
   decimal_value (concat [''1'']) ''5'' = 3 / 2 \<and>
   (est_clean (CHR ''-'' # ''-1.000,5 EUR'') = est_clean ''-1.000,5 EUR'' \<and>
    est_cell py_float (CHR ''-'' # ''1,5'') = est_cell py_float ''1,5'' \<and>
    fund_cell py_float (CHR ''-'' # localized [''1''] ''5'') =
      Inr (Some (- decimal_value (concat [''1'']) ''5'')) \<and>
    est_cell py_float (CHR ''-'' # localized [''1''] ''5'') =
      Inr (Some \<bar>- decimal_value (concat [''1'']) ''5''\<bar>) \<and>
    est_cell py_float ''-1,5'' = Inr (Some (3 / 2)))"
proof -
  have h1: "\<forall>g\<in>set [''1'']. list_all is_digit g" by (simp add: is_digit_def)
  have h2: "concat [''1''] \<noteq> []" by simp
  have h3: "list_all is_digit ''5''" by (simp add: is_digit_def)
  have h4: "''1,5'' \<noteq> []" by simp
  have h5: "''1,5'' \<noteq> ''-''" by simp
  have l: "localized [''1''] ''5'' = ''1,5''" by (simp add: localized_def)
  have d: "decimal_value (concat [''1'']) ''5'' = 3 / 2"
    by (simp add: decimal_value_def digits_val_def digit_val_def)
  have h0: "list_all (list_all is_digit) [''1'']" by (simp add: is_digit_def)
  from est_cell_loses_sign[OF h1 h2 h3 h4 h5, of "''-1.000,5 EUR''" py_float] h0 h2 h3 h4 h5 l d
  show ?thesis by blast
qed

section \<open>Properties of the table parser and of the orchestrators\<close>

lemmas page_defs = example_row_def example_section_def sap_meta_def quotes_section_def
  ratios_section_def income_section_def balance_section_def other_section_def
  page_without_balance_def page_without_performance_def ragged_page_def bad_row_def
  bad_quotes_section_def page_with_bad_cell_def page_without_isin_def serve_def

lemmas dom_defs = parse_table_def find_parent_def find_all_def find_tag_def text_matches_def
  parse_row_def py_dict_def Let_def

subsection \<open>Dictionaries\<close>

lemma dict_set_fresh: "k \<notin> fst ` set d \<Longrightarrow> dict_set k v d = d @ [(k, v)]"
  by (induction d) auto

lemma foldl_dict_set_distinct:
  "distinct (map fst d @ map fst ps) \<Longrightarrow> foldl (\<lambda>d (k, v). dict_set k v d) d ps = d @ ps"
proof (induction ps arbitrary: d)
  case Nil
  then show ?case by simp
next
  case (Cons p ps)
  obtain k v where p: "p = (k, v)" by (cases p)
  from Cons.prems have fresh: "k \<notin> fst ` set d" by (auto simp: p)
  from Cons.prems have "distinct (map fst (d @ [(k, v)]) @ map fst ps)" by (auto simp: p)
  from Cons.IH[OF this] fresh show ?case by (simp add: p dict_set_fresh)
qed

lemma py_dict_distinct: "distinct (map fst ps) \<Longrightarrow> py_dict ps = ps"
  using foldl_dict_set_distinct[of "[]" ps] by (simp add: py_dict_def)

lemma zip_take_min:
  "zip xs ys = zip (take (min (length xs) (length ys)) xs) (take (min (length xs) (length ys)) ys)"
proof (induction xs arbitrary: ys)
  case Nil
  then show ?case by simp
next
  case (Cons x xs)
  then show ?case by (cases ys) simp_all
qed

lemma py_dict_zip:
  "distinct years \<Longrightarrow> py_dict (zip years vals) = zip years vals"
  by (rule py_dict_distinct) (simp add: map_fst_zip_take)

subsection \<open>Rows and cells\<close>

lemma map_raise_length: "map_raise f xs = Inr ys \<Longrightarrow> length ys = length xs"
  by (induction xs arbitrary: ys) (auto split: sum.splits)

lemma map_raise_nth:
  "map_raise f xs = Inr ys \<Longrightarrow> i < length xs \<Longrightarrow> f (xs ! i) = Inr (ys ! i)"
proof (induction xs arbitrary: ys i)
  case Nil
  then show ?case by simp
next
  case (Cons x xs)
  then show ?case by (cases i) (auto split: sum.splits)
qed





lemma parse_row_eq:
  "parse_row flt years row table_dict =
     (case name_cell row of
        None \<Rightarrow> Inl AttributeError
      | Some cell \<Rightarrow>
          (case map_raise (fund_cell flt) (row_cells row) of
             Inl e \<Rightarrow> Inl e
           | Inr vals \<Rightarrow> Inr (dict_set (get_text cell) (py_dict (zip years vals)) table_dict)))"
  unfolding parse_row_def name_cell_def row_cells_def Let_def parse_row_cells
  by (rule refl)





lemma parse_table_eq:
  "parse_table flt soup signaler =
     (case section_of soup signaler of
        Inl e \<Rightarrow> Inl e
      | Inr table \<Rightarrow>
          parse_rows flt (map get_text (drop 2 (find_all ''th'' table)))
            (drop 1 (find_all ''tr'' table)) [])"
  by (simp add: parse_table_def section_of_def Let_def cong: sum.case_cong)

lemma section_of_error: "section_of soup signaler = Inl e \<Longrightarrow> e = AttributeError"
  by (auto simp: section_of_def find_parent_def split: option.splits)

lemma parse_table_missing_heading:
  "section_of soup signaler = Inl e \<Longrightarrow> parse_table flt soup signaler = Inl AttributeError"
  using section_of_error[of soup signaler e] by (simp add: parse_table_eq)


subsection \<open>The result of \<open>get_fundamentals\<close>\<close>

lemma get_fundamentals_result:
  assumes "make_soup (fst (fundamentals_request stock)) = Inr soup"
    and "check_site soup = Inr ()"
    and "resolve_isin (snd (fundamentals_request stock)) soup = Inr (Some i)"
  shows "get_fundamentals make_soup flt stock =
     Inr \<lparr>Quotes = attempt (parse_table flt soup ''Die Aktie''),
          Key_Ratios = attempt (parse_table flt soup ''Unternehmenskennzahlen''),
          Income_Statement = attempt (parse_table flt soup ''GuV''),
          Balance_Sheet = attempt (parse_table flt soup ''Bilanz''),
          ISIN = py_upper i,
          Other = attempt (parse_table flt soup ''sonstige Angaben'')\<rparr>"
  using assms by (cases "fundamentals_request stock") (simp add: get_fundamentals_def Let_def)

lemma category_result:
  assumes "r = \<lparr>Quotes = attempt (parse_table flt soup ''Die Aktie''),
          Key_Ratios = attempt (parse_table flt soup ''Unternehmenskennzahlen''),
          Income_Statement = attempt (parse_table flt soup ''GuV''),
          Balance_Sheet = attempt (parse_table flt soup ''Bilanz''),
          ISIN = u,
          Other = attempt (parse_table flt soup ''sonstige Angaben'')\<rparr>"
    and "s \<in> set signalers"
  shows "category s r = attempt (parse_table flt soup s)"
  using assms by (auto simp: signalers_def category_def)

lemma get_fundamentals_categories:
  assumes "make_soup (fst (fundamentals_request stock)) = Inr soup"
    and "check_site soup = Inr ()"
    and "resolve_isin (snd (fundamentals_request stock)) soup = Inr (Some i)"
  shows "\<exists>r. get_fundamentals make_soup flt stock = Inr r \<and> ISIN r = py_upper i \<and>
           (\<forall>s\<in>set signalers. category s r = attempt (parse_table flt soup s))"
proof -
  let ?r = "\<lparr>Quotes = attempt (parse_table flt soup ''Die Aktie''),
          Key_Ratios = attempt (parse_table flt soup ''Unternehmenskennzahlen''),
          Income_Statement = attempt (parse_table flt soup ''GuV''),
          Balance_Sheet = attempt (parse_table flt soup ''Bilanz''),
          ISIN = py_upper i,
          Other = attempt (parse_table flt soup ''sonstige Angaben'')\<rparr>"
  have "get_fundamentals make_soup flt stock = Inr ?r"
    using assms by (rule get_fundamentals_result)
  moreover have "\<forall>s\<in>set signalers. category s ?r = attempt (parse_table flt soup s)"
    using category_result[OF refl] by blast
  moreover have "ISIN ?r = py_upper i" by simp
  ultimately show ?thesis by blast
qed

text \<open>
  A page without the heading of one section: the category of that section is \<open>None\<close>,
  and every other category is what its own section gives.
\<close>

lemma get_fundamentals_missing_heading:
  assumes "make_soup (fst (fundamentals_request stock)) = Inr soup"
    and "check_site soup = Inr ()"
    and "resolve_isin (snd (fundamentals_request stock)) soup = Inr (Some i)"
    and "sig \<in> set signalers"
    and "section_of soup sig = Inl e"
  shows "\<exists>r. get_fundamentals make_soup flt stock = Inr r \<and> category sig r = None \<and>
           (\<forall>s\<in>set signalers. s \<noteq> sig \<longrightarrow> category s r = attempt (parse_table flt soup s))"
proof -
  have "\<exists>r. get_fundamentals make_soup flt stock = Inr r \<and> ISIN r = py_upper i \<and>
           (\<forall>s\<in>set signalers. category s r = attempt (parse_table flt soup s))"
    using assms(1-3) by (rule get_fundamentals_categories)
  then obtain r where
    r: "get_fundamentals make_soup flt stock = Inr r"
    and c: "\<forall>s\<in>set signalers. category s r = attempt (parse_table flt soup s)" by blast
  from c assms(4) parse_table_missing_heading[OF assms(5), of flt]
  have "category sig r = None" by (simp add: attempt_def)
  with r c show ?thesis by blast
qed

subsection \<open>Evaluation on the example pages\<close>

lemma request_SAP:
  "fundamentals_request ''SAP'' = (''https://www.finanzen.net/bilanz_guv/sap'', None) \<and>
   chart_request ''SAP'' = (''https://www.finanzen.net/aktien/sap'', None) \<and>
   py_lower ''SAP'' = ''sap'' \<and> parse_for_isin ''sap'' = None"
  by code_simp

lemma check_site_examples:
  "check_site page_without_balance = Inr () \<and> check_site page_without_performance = Inr () \<and>
   check_site page_with_bad_cell = Inr () \<and> check_site page_without_isin = Inr ()"
  by code_simp

lemma isin_of_examples:
  "get_isin_from_soup page_without_balance = Inr (Some ''DE0007164600'') \<and>
   get_isin_from_soup page_without_performance = Inr (Some ''DE0007164600'') \<and>
   get_isin_from_soup page_with_bad_cell = Inr (Some ''DE0007164600'') \<and>
   get_isin_from_soup page_without_isin = Inr None \<and>
   py_upper ''DE0007164600'' = ''DE0007164600''"
  by code_simp

lemma sections_without_balance:
  "parse_table py_float page_without_balance ''Die Aktie'' =
     Inr [(''Ergebnis je Aktie'', [(''2021'', Some (446 / 100))])]"
  "parse_table py_float page_without_balance ''Unternehmenskennzahlen'' =
     Inr [(''Umsatz je Aktie'', [(''2021'', Some (2360 / 100))])]"
  "parse_table py_float page_without_balance ''GuV'' = Inr [(''Umsatz'', [(''2021'', Some 27842)])]"
  "parse_table py_float page_without_balance ''Bilanz'' = Inl AttributeError"
  "parse_table py_float page_without_balance ''sonstige Angaben'' =
     Inr [(''Personal'', [(''2021'', None)])]"
  by (simp_all add: page_defs dom_defs float_eval)


lemma no_performance_heading:
  "parse_chart_table read_html page_without_performance ''Performance'' = Inl AttributeError"
  by (simp add: parse_chart_table_def page_defs dom_defs)

lemma example_requests:
  "serve page (fst (fundamentals_request ''SAP'')) = Inr page"
  "resolve_isin (snd (fundamentals_request ''SAP'')) page_without_balance =
     Inr (Some ''DE0007164600'')"
  "resolve_isin (snd (fundamentals_request ''SAP'')) page_with_bad_cell =
     Inr (Some ''DE0007164600'')"
  using request_SAP isin_of_examples by (simp_all add: serve_def resolve_isin_def truthy_def)

subsection \<open>A missing section (C1)\<close>

text \<open>
  Whenever the heading \<open>Performance\<close> is not found, \<open>get_chart_infos\<close> returns no result:
  \<open>performance_info\<close> is set to \<open>None\<close>, and \<open>performance_info.to_dict\<close> raises.
\<close>

lemma get_chart_infos_missing_heading:
  assumes "parse_chart_table read_html soup ''Performance'' = Inl e"
    and "make_soup (fst (chart_request stock)) = Inr soup"
  shows "\<exists>e'. get_chart_infos make_soup read_html to_dict stock = Inl e'"
  using assms
  by (cases "chart_request stock")
     (auto simp: get_chart_infos_def Let_def attempt_def split: sum.splits option.splits)

text \<open>
  C1. On a page of \<open>aktien\<close> that has its ISIN but no heading \<open>Performance\<close>,
  \<open>get_chart_infos\<close> raises \<open>AttributeError\<close> and returns no result, whatever the
  table library does. \<open>get_fundamentals\<close> does what the claim says: on the page without
  the section of the balance sheet the category \<open>Balance Sheet\<close> is \<open>None\<close> and the other
  four are filled.
\<close>

theorem missing_performance_heading_aborts:
  "get_chart_infos (serve page_without_performance) read_html to_dict ''SAP'' = Inl AttributeError \<and>
   get_fundamentals (serve page_without_balance) py_float ''SAP'' =
     Inr \<lparr>Quotes = Some [(''Ergebnis je Aktie'', [(''2021'', Some (446 / 100))])],
          Key_Ratios = Some [(''Umsatz je Aktie'', [(''2021'', Some (2360 / 100))])],
          Income_Statement = Some [(''Umsatz'', [(''2021'', Some 27842)])],
          Balance_Sheet = None,
          ISIN = ''DE0007164600'',
          Other = Some [(''Personal'', [(''2021'', None)])]\<rparr>"
  (is "?chart \<and> ?fund")
proof
  show ?chart
    using request_SAP check_site_examples isin_of_examples
    by (simp add: get_chart_infos_def no_performance_heading attempt_def resolve_isin_def
        truthy_def serve_def)
next
  have "check_site page_without_balance = Inr ()" using check_site_examples by simp
  from get_fundamentals_result
      [where make_soup = "serve page_without_balance" and soup = page_without_balance
         and flt = py_float, OF example_requests(1) this example_requests(2)]
  show ?fund using isin_of_examples by (simp add: sections_without_balance attempt_def)
qed

subsection \<open>Rows whose cell count differs from the number of labels (C3)\<close>

text \<open>
  The claim C3 fails: in the section below there are two column labels, the first row
  has one value and the second row has three. No row is rejected or skipped; the first
  row gets one entry, and the third value of the second row is dropped.
\<close>

theorem ragged_rows_counterexample:
  "parse_table py_float ragged_page ''Bilanz'' =
     Inr [(''Eigenkapital'', [(''2020'', Some 1)]),
          (''Bilanzsumme'', [(''2020'', Some 1), (''2021'', Some 2)])]"
  by (simp add: page_defs dom_defs float_eval)

text \<open>
  C3, as amended. A row with a name cell and cells that all convert is accepted whatever
  the number of its cells. With \<open>n\<close> the smaller of the number of labels and the number of
  value cells, the dictionary of the row pairs the first \<open>n\<close> labels with the first \<open>n\<close>
  values, position by position (the labels being distinct); the cells and the labels
  beyond \<open>n\<close> get no entry.
\<close>

theorem parse_row_pairs_by_position:
  assumes "name_cell row = Some cell"
    and "map_raise (fund_cell flt) (row_cells row) = Inr vals"
    and "distinct years"
    and "n = min (length years) (length (row_cells row))"
  shows "parse_row flt years row table_dict =
           Inr (dict_set (get_text cell) (zip (take n years) (take n vals)) table_dict) \<and>
         length vals = length (row_cells row) \<and>
         length (zip (take n years) (take n vals)) = n \<and>
         (\<forall>i<n. zip (take n years) (take n vals) ! i = (years ! i, vals ! i) \<and>
                fund_cell flt (row_cells row ! i) = Inr (vals ! i))"
proof -
  have len: "length vals = length (row_cells row)"
    using assms(2) by (rule map_raise_length)
  have z: "py_dict (zip years vals) = zip (take n years) (take n vals)"
    using py_dict_zip[OF assms(3), of vals] zip_take_min[of years vals] assms(4) len by simp
  have "parse_row flt years row table_dict =
      Inr (dict_set (get_text cell) (zip (take n years) (take n vals)) table_dict)"
    using assms(1,2) z by (simp add: parse_row_eq)
  moreover have "length (zip (take n years) (take n vals)) = n"
    using assms(4) len by simp
  moreover have "zip (take n years) (take n vals) ! i = (years ! i, vals ! i) \<and>
      fund_cell flt (row_cells row ! i) = Inr (vals ! i)" if "i < n" for i
    using that assms(4) len map_raise_nth[OF assms(2), of i] by simp
  ultimately show ?thesis using len by blast
qed

theorem parse_row_pairs_by_position_witness:
  "name_cell (example_row ''Bilanzsumme'' [''1,0'', ''2,0'', ''3,0'']) =
     Some (Tag ''td'' [''font-bold''] [] [Text ''Bilanzsumme'']) \<and>
   map_raise (fund_cell py_float) (row_cells (example_row ''Bilanzsumme'' [''1,0'', ''2,0'', ''3,0''])) =
     Inr [Some 1, Some 2, Some 3] \<and>
   distinct [''2020'', ''2021''] \<and>
   2 = min (length [''2020'', ''2021''])
         (length (row_cells (example_row ''Bilanzsumme'' [''1,0'', ''2,0'', ''3,0'']))) \<and>
   parse_row py_float [''2020'', ''2021''] (example_row ''Bilanzsumme'' [''1,0'', ''2,0'', ''3,0'']) [] =
     Inr [(''Bilanzsumme'', [(''2020'', Some 1), (''2021'', Some 2)])]"
proof -
  let ?row = "example_row ''Bilanzsumme'' [''1,0'', ''2,0'', ''3,0'']"
  have c: "row_cells ?row = [''1,0'', ''2,0'', ''3,0'']"
    by (simp add: row_cells_def find_all_def example_row_def)
  have h1: "name_cell ?row = Some (Tag ''td'' [''font-bold''] [] [Text ''Bilanzsumme''])"
    by (simp add: name_cell_def find_tag_def example_row_def)
  have h2: "map_raise (fund_cell py_float) (row_cells ?row) = Inr [Some 1, Some 2, Some 3]"
    unfolding c by (simp add: float_eval)
  have h3: "distinct [''2020'', ''2021'']" by simp
  have h4: "2 = min (length [''2020'', ''2021'']) (length (row_cells ?row))"
    unfolding c by simp
  from parse_row_pairs_by_position[OF h1 h2 h3 h4, of "[]"]
  have "parse_row py_float [''2020'', ''2021''] ?row [] =
      Inr [(''Bilanzsumme'', [(''2020'', Some 1), (''2021'', Some 2)])]"
    by simp
  with h1 h2 h3 h4 show ?thesis by blast
qed

subsection \<open>A cell that is no number (C4)\<close>





subsection \<open>No ISIN from the input and none from the page (C9)\<close>

text \<open>
  C9. When the lower-cased input holds no ISIN and the page that is loaded has no ISIN in
  its \<open>og:title\<close> metadata, \<open>isin\<close> is \<open>None\<close> when the result is put together, and
  \<open>isin.upper()\<close> raises \<open>AttributeError\<close>: \<open>get_fundamentals\<close> and \<open>get_chart_infos\<close> return
  no result.
\<close>

theorem no_isin_raises:
  assumes "parse_for_isin (py_lower stock) = None"
    and "make_soup (fundamentals_base @ py_lower stock) = Inr soup1"
    and "check_site soup1 = Inr ()"
    and "get_isin_from_soup soup1 = Inr None"
    and "make_soup (chart_base @ py_lower stock) = Inr soup2"
    and "check_site soup2 = Inr ()"
    and "get_isin_from_soup soup2 = Inr None"
  shows "get_fundamentals make_soup flt stock = Inl AttributeError \<and>
         get_chart_infos make_soup read_html to_dict stock = Inl AttributeError"
proof
  show "get_fundamentals make_soup flt stock = Inl AttributeError"
    using assms(1-4)
    by (simp add: get_fundamentals_def fundamentals_request_def join_url_direct
        resolve_isin_def truthy_def)
next
  show "get_chart_infos make_soup read_html to_dict stock = Inl AttributeError"
    using assms(1,5-7)
    by (simp add: get_chart_infos_def chart_request_def join_url_direct
        resolve_isin_def truthy_def)
qed

theorem no_isin_raises_witness:
  "parse_for_isin (py_lower ''SAP'') = None \<and>
   serve page_without_isin (fundamentals_base @ py_lower ''SAP'') = Inr page_without_isin \<and>
   check_site page_without_isin = Inr () \<and>
   get_isin_from_soup page_without_isin = Inr None \<and>
   serve page_without_isin (chart_base @ py_lower ''SAP'') = Inr page_without_isin \<and>
   get_fundamentals (serve page_without_isin) py_float ''SAP'' = Inl AttributeError \<and>
   get_chart_infos (serve page_without_isin) (\<lambda>t. Inr t) (\<lambda>d. Inr d) ''SAP'' = Inl AttributeError"
proof -
  have h1: "parse_for_isin (py_lower ''SAP'') = None" using request_SAP by simp
  have h2: "serve page_without_isin (fundamentals_base @ py_lower ''SAP'') = Inr page_without_isin"
    by (simp add: serve_def)
  have h3: "check_site page_without_isin = Inr ()" using check_site_examples by simp
  have h4: "get_isin_from_soup page_without_isin = Inr None" using isin_of_examples by simp
  have h5: "serve page_without_isin (chart_base @ py_lower ''SAP'') = Inr page_without_isin"
    by (simp add: serve_def)
  from no_isin_raises[OF h1 h2 h3 h4 h5 h3 h4, of py_float "\<lambda>t. Inr t" "\<lambda>d. Inr d"]
    h1 h2 h3 h4 h5
  show ?thesis by blast
qed

section \<open>Two calls of the functions on \<open>lxml\<close> pages (C8)\<close>

lemma get_estimates_lxml_results:
  "snd (get_estimates_lxml fetch flt frame stock results) = results"
  by (simp add: get_estimates_lxml_def split: sum.splits option.splits)

lemma get_estimates_lxml_outcome:
  "fst (get_estimates_lxml fetch flt frame stock results) =
     fst (get_estimates_lxml fetch flt frame stock [])"
  by (simp add: get_estimates_lxml_def split: sum.splits option.splits)

lemma get_fundamentals_lxml_results:
  "snd (get_fundamentals_lxml fetch frame concat_frames stock results) = results"
  by (simp add: get_fundamentals_lxml_def split: sum.splits)

lemma get_fundamentals_lxml_outcome:
  "fst (get_fundamentals_lxml fetch frame concat_frames stock results) =
     fst (get_fundamentals_lxml fetch frame concat_frames stock [])"
  by (simp add: get_fundamentals_lxml_def split: sum.splits)

text \<open>
  C8. Of two calls that leave \<open>results\<close> to its default, the second returns what a call
  with a fresh empty list returns for its stock (the site answering a URL in the same
  way), whatever the first call was and whatever the default list held before; both
  calls leave the default list as it was.
  The rows of a call are collected in \<open>data_table\<close> and \<open>complete_data_set\<close>, which every
  call starts empty, and the list \<open>results\<close> is neither read nor changed.
\<close>

theorem second_call_is_fresh:
  "fst (snd (two_calls (get_estimates_lxml fetch flt frame) stock1 stock2
               (default_list :: 'r list))) =
     fst (get_estimates_lxml fetch flt frame stock2 ([] :: 'r list)) \<and>
   snd (snd (two_calls (get_estimates_lxml fetch flt frame) stock1 stock2 default_list)) =
     default_list \<and>
   fst (snd (two_calls (get_fundamentals_lxml fetch frame' concat_frames) stock1 stock2
               default_list)) =
     fst (get_fundamentals_lxml fetch frame' concat_frames stock2 ([] :: 'r list)) \<and>
   snd (snd (two_calls (get_fundamentals_lxml fetch frame' concat_frames) stock1 stock2
               default_list)) =
     default_list"
  using get_estimates_lxml_outcome[of fetch flt frame stock2 default_list]
    get_fundamentals_lxml_outcome[of fetch frame' concat_frames stock2 default_list]
  by (simp add: two_calls_def case_prod_beta get_estimates_lxml_results
      get_fundamentals_lxml_results)

theorem second_call_is_fresh_witness:
  "two_calls (get_estimates_lxml example_fetch py_float rows_frame) ''sap'' ''bmw'' ([] :: unit list) =
     (Inr [[Str ''Estimation'', Str ''2024e'', Str ''2025e''],
           [Str ''Umsatz'', Num (3100050 / 100), Str ''-'']],
      Inr [[Str ''Estimation'', Str ''2024e''], [Str ''Dividende'', Num 6]],
      []) \<and>
   fst (snd (two_calls (get_estimates_lxml example_fetch py_float rows_frame) ''sap'' ''bmw''
               ([] :: unit list))) =
     fst (get_estimates_lxml example_fetch py_float rows_frame ''bmw'' ([] :: unit list)) \<and>
   fst (snd (two_calls (get_fundamentals_lxml example_fetch
               (rows_frame :: rat cell list list \<Rightarrow> pyerr + rat cell list list) rows_concat)
               ''sap'' ''bmw'' ([] :: unit list))) =
     Inr [[Str ''2021''], [Str ''Umsatz'', Str ''111239.00'']]"
proof -
  have s: "get_estimates_lxml example_fetch py_float rows_frame ''sap'' ([] :: unit list) =
      (Inr [[Str ''Estimation'', Str ''2024e'', Str ''2025e''],
            [Str ''Umsatz'', Num (3100050 / 100), Str ''-'']], [])"
    by (simp add: get_estimates_lxml_def example_fetch_def lxml_page_sap_def rows_frame_def
        lxml_row_def lxml_cell_def first_word_def float_eval)
  have b: "get_estimates_lxml example_fetch py_float rows_frame ''bmw'' ([] :: unit list) =
      (Inr [[Str ''Estimation'', Str ''2024e''], [Str ''Dividende'', Num 6]], [])"
    by (simp add: get_estimates_lxml_def example_fetch_def lxml_page_bmw_def rows_frame_def
        lxml_row_def lxml_cell_def first_word_def float_eval)
  have f: "get_fundamentals_lxml example_fetch
      (rows_frame :: rat cell list list \<Rightarrow> pyerr + rat cell list list) rows_concat ''bmw''
      ([] :: unit list) = (Inr [[Str ''2021''], [Str ''Umsatz'', Str ''111239.00'']], [])"
    by (simp add: get_fundamentals_lxml_def signalers_def get_parser_def parser_functions_def
        example_fetch_def lxml_page_bmw_def rows_frame_def rows_concat_def section_table_def
        lxml_clean_row_def sub_dots_def sub_comma_def)
  from second_call_is_fresh
    [of example_fetch py_float rows_frame "''sap''" "''bmw''" "[] :: unit list"
        "rows_frame :: rat cell list list \<Rightarrow> pyerr + rat cell list list" rows_concat]
  show ?thesis by (simp add: s b f two_calls_def)
qed

end
